theory Spec2Isabelle
  imports Complex_Main "HOL-Library.Word" "HOL-Library.Signed_Division" "HOL-Library.Log_Nat"
begin

section \<open>The document-store driver as seen from infra/mongo.go\<close>

text \<open>
  The layer of \<^verbatim>\<open>infra/mongo.go\<close> owns no algorithm of the store: every operation
  forwards to the MongoDB driver. The driver is therefore a parameter of the model. Its
  handles are values, every call made on it is appended to a history, and the driver's
  answer to a call is a function of the history that ends with that call, so that any
  deterministic store behaviour is an instance.
\<close>

text \<open>Errors produced by the driver. \<^verbatim>\<open>mongo.ErrNoDocuments\<close> is the one
  \<^verbatim>\<open>SingleResult.Err\<close> reports when a filter matches nothing.\<close>

datatype mongo_error =
    ErrNoDocuments
  | ErrClientDisconnected
  | ErrUnackWCUnsupported
  | StoreError string

text \<open>Modelled from the spec: \<^verbatim>\<open>ErrNotFound\<close> is declared in a file of package
  \<^verbatim>\<open>infra\<close> other than mongo.go. The spec calls it the distinguished "zero documents
  matched" outcome of the layer, apart from the store's passthrough errors, so it is a
  constructor of its own; every other value of Go's \<^verbatim>\<open>error\<close> that mongo.go can return
  comes from the driver.\<close>

datatype error = ErrNotFound | Mongo mongo_error

text \<open>\<^verbatim>\<open>context.Context\<close>: the background context, a context derived by
  \<^verbatim>\<open>context.WithCancel\<close>, or one that the caller supplies.\<close>

datatype go_context = Background | WithCancel go_context | CallerContext nat

datatype readpref = Primary

text \<open>\<^verbatim>\<open>*mongo.Client\<close> as stored in \<^verbatim>\<open>mcl\<close>. The field is unexported and
  \<^verbatim>\<open>NewMongoClient\<close> stores the connected client only, so the handle is never nil.\<close>

datatype client = Client nat

text \<open>\<^verbatim>\<open>mongo.Session\<close> is an interface: its zero value, which a lookup of a missing
  map key yields, is the nil interface.\<close>

datatype session = NilSession | SessionImpl nat

datatype database = Database client string

datatype collection = Collection database string

text \<open>Queries, documents, patches and pipelines are opaque to the layer
  (\<^verbatim>\<open>bson.M\<close>, \<^verbatim>\<open>interface{}\<close>).\<close>

datatype bson =
    BNull
  | BBool bool
  | BInt int
  | BString string
  | BArray "bson list"
  | BDoc "(string \<times> bson) list"

text \<open>\<^verbatim>\<open>options.IndexOptions\<close>: the four fields mongo.go sets; a field is a pointer,
  nil until its setter runs.\<close>

record IndexOptions =
  optExpireAfterSeconds :: "32 word option"
  optName :: "string option"
  optSparse :: "bool option"
  optUnique :: "bool option"

text \<open>\<^verbatim>\<open>mongo.IndexModel\<close>; the keys are a \<^verbatim>\<open>bson.D\<close> of field name and direction.\<close>

record IndexModel =
  modelKeys :: "(string \<times> int) list"
  modelOptions :: IndexOptions

text \<open>\<^verbatim>\<open>options.FindOptions\<close>: the two \<^verbatim>\<open>*int64\<close> fields mongo.go sets.\<close>

record FindOptions =
  findSkip :: "64 word option"
  findLimit :: "64 word option"

record UpdateResult =
  MatchedCount :: "64 word"
  ModifiedCount :: "64 word"
  UpsertedCount :: "64 word"

datatype single_result = SingleResult (single_err: "mongo_error option") (single_raw: bson)

datatype cursor = Cursor (cursor_err: "mongo_error option") (cursor_batch: "bson list")

text \<open>Every call that mongo.go makes on the driver or on a context's cancel function.\<close>

datatype call =
    Mongo_Connect go_context string
  | Client_StartSession client
  | Session_StartTransaction session
  | Session_CommitTransaction session go_context
  | Session_EndSession session go_context
  | Client_Ping client go_context readpref
  | Client_Disconnect client go_context
  | Client_Connect client go_context
  | Indexes_DropOne collection go_context string
  | Indexes_CreateOne collection go_context IndexModel
  | Indexes_CreateMany collection go_context "IndexModel list"
  | Indexes_DropAll collection go_context
  | Coll_FindOne collection go_context bson
  | Coll_InsertOne collection go_context bson
  | Coll_ReplaceOne collection go_context bson bson
  | Coll_UpdateOne collection go_context bson bson
  | Coll_Find collection go_context bson FindOptions
  | Coll_Aggregate collection go_context bson
  | Ctx_Cancel go_context

text \<open>What the driver returns: each field answers the last call of the history it is
  given. \<^verbatim>\<open>DropOne\<close> and \<^verbatim>\<open>EndSession\<close> have no field, since mongo.go reads
  nothing of what they return.\<close>

record driver =
  ret_MongoConnect :: "call list \<Rightarrow> mongo_error + client"
  ret_StartSession :: "call list \<Rightarrow> mongo_error + session"
  ret_StartTransaction :: "call list \<Rightarrow> mongo_error option"
  ret_CommitTransaction :: "call list \<Rightarrow> mongo_error option"
  ret_Ping :: "call list \<Rightarrow> mongo_error option"
  ret_Disconnect :: "call list \<Rightarrow> mongo_error option"
  ret_Connect :: "call list \<Rightarrow> mongo_error option"
  ret_CreateOne :: "call list \<Rightarrow> mongo_error + string"
  ret_CreateMany :: "call list \<Rightarrow> mongo_error + string list"
  ret_DropAll :: "call list \<Rightarrow> mongo_error option"
  ret_FindOne :: "call list \<Rightarrow> single_result"
  ret_InsertOne :: "call list \<Rightarrow> mongo_error option"
  ret_ReplaceOne :: "call list \<Rightarrow> mongo_error + UpdateResult"
  ret_UpdateOne :: "call list \<Rightarrow> mongo_error + UpdateResult"
  ret_Find :: "call list \<Rightarrow> mongo_error + cursor"
  ret_Aggregate :: "call list \<Rightarrow> mongo_error + cursor"

section \<open>The client\<close>

definition database :: string where
  "database = ''cogman''"

definition tableTasks :: string where
  "tableTasks = ''tasks''"

record MongoClient =
  URL :: string
  ExpDur :: "32 word"
  mcl :: client
  sess :: "string \<rightharpoonup> session"

text \<open>A method has the pointer receiver \<^verbatim>\<open>m\<close>: the state it runs in is the struct
  behind the pointer and the history of calls made so far.\<close>

record state =
  this :: MongoClient
  history :: "call list"

definition perform :: "call \<Rightarrow> state \<Rightarrow> state" where
  "perform c s = s\<lparr>history := history s @ [c]\<rparr>"

text \<open>The calls an operation added to the history.\<close>

definition new_calls :: "state \<Rightarrow> state \<Rightarrow> call list" where
  "new_calls s s' = drop (length (history s)) (history s')"

text \<open>A method call on a nil interface value panics.\<close>

datatype 'a outcome = Panic | Return 'a

text \<open>Go's \<^verbatim>\<open>m[k]\<close>: the zero value of the element type when the key is missing.\<close>

definition index_sess :: "(string \<rightharpoonup> session) \<Rightarrow> string \<Rightarrow> session" where
  "index_sess m k = (case m k of None \<Rightarrow> NilSession | Some v \<Rightarrow> v)"

definition as_error :: "mongo_error option \<Rightarrow> error option" where
  "as_error r = map_option Mongo r"

definition nil_or_error :: "mongo_error option \<Rightarrow> error + unit" where
  "nil_or_error r = (case r of None \<Rightarrow> Inr () | Some err \<Rightarrow> Inl (Mongo err))"

section \<open>The seconds of a duration\<close>

text \<open>
  \<^verbatim>\<open>NewMongoClient\<close> stores \<^verbatim>\<open>int32(ttl.Seconds())\<close>. \<^verbatim>\<open>time.Duration\<close> is an
  int64 of nanoseconds, and \<^verbatim>\<open>Seconds\<close> of the Go standard library is
  \<^verbatim>\<open>sec := d / Second; nsec := d % Second; return float64(sec) + float64(nsec)/1e9\<close>:
  a computation in IEEE 754 binary64. A float64 value is the rational it denotes, and an
  operation is the exact operation followed by rounding to the nearest value with a
  53-bit significand, ties to the even significand. Every value that arises here is zero
  or lies between a billionth and ten billion in magnitude, far from the subnormal and
  the overflow range, so the exponent needs no bound.
\<close>

definition round_half_even :: "rat \<Rightarrow> int" where
  "round_half_even x =
     (let n = \<lfloor>x\<rfloor>; r = x - of_int n
      in if r < 1 / 2 then n else if 1 / 2 < r then n + 1 else if even n then n else n + 1)"

text \<open>The binary exponent of a non-zero rational: \<open>2 powi ilog2 x \<le> \<bar>x\<bar> < 2 powi (ilog2 x + 1)\<close>,
  computed from the bit length of an integer.\<close>

definition ilog2 :: "rat \<Rightarrow> int" where
  "ilog2 x = (if 1 \<le> \<bar>x\<bar> then bitlen \<lfloor>\<bar>x\<bar>\<rfloor> - 1 else - bitlen (\<lceil>1 / \<bar>x\<bar>\<rceil> - 1))"

text \<open>Rounding to binary64: the significand is the multiple of the unit in the last place,
  52 binary places below the leading bit.\<close>

definition float64 :: "rat \<Rightarrow> rat" where
  "float64 x =
     (if x = 0 then 0
      else let ulp = 2 powi (ilog2 x - 52) in of_int (round_half_even (x / ulp)) * ulp)"

text \<open>\<^verbatim>\<open>Duration.Seconds\<close>. Go's \<^verbatim>\<open>/\<close> and \<^verbatim>\<open>%\<close> on integers truncate towards
  zero.\<close>

definition Seconds :: "64 word \<Rightarrow> rat" where
  "Seconds d =
     (let sec = sint d sdiv 1000000000;
          nsec = sint d smod 1000000000
      in float64 (float64 (of_int sec) + float64 (float64 (of_int nsec) / float64 1000000000)))"

text \<open>The conversion \<^verbatim>\<open>int32(f)\<close> of a float64 discards the fraction (truncation
  towards zero). When the integer does not fit 32 bits the language leaves the result to
  the implementation; the value taken here is the one the amd64 compiler's conversion
  instruction produces, the least int32. No statement below rests on that case.\<close>

definition int32_of_float64 :: "rat \<Rightarrow> 32 word" where
  "int32_of_float64 f =
     (let i = (if 0 \<le> f then \<lfloor>f\<rfloor> else \<lceil>f\<rceil>)
      in if - (2 ^ 31) \<le> i \<and> i < 2 ^ 31 then word_of_int i else - (2 ^ 31))"

section \<open>The operations\<close>

definition NewMongoClient ::
  "driver \<Rightarrow> string \<Rightarrow> 64 word \<Rightarrow> call list \<Rightarrow> (error + MongoClient) \<times> call list" where
  "NewMongoClient drv url ttl h =
     (let h1 = h @ [Mongo_Connect Background url] in
      case ret_MongoConnect drv h1 of
        Inl err \<Rightarrow> (Inl (Mongo err), h1)
      | Inr conn \<Rightarrow>
          (Inr \<lparr>URL = url, ExpDur = int32_of_float64 (Seconds ttl), mcl = conn,
                sess = Map.empty\<rparr>, h1))"

definition StartTransaction ::
  "driver \<Rightarrow> string \<Rightarrow> state \<Rightarrow> (error + unit) outcome \<times> state" where
  "StartTransaction drv ident s =
     (let s1 = perform (Client_StartSession (mcl (this s))) s in
      case ret_StartSession drv (history s1) of
        Inl err \<Rightarrow> (Return (Inl (Mongo err)), s1)
      | Inr new \<Rightarrow>
          let s2 = s1\<lparr>this := (this s1)\<lparr>sess := (sess (this s1))(ident \<mapsto> new)\<rparr>\<rparr>;
              cur = index_sess (sess (this s2)) ident
          in if cur = NilSession then (Panic, s2)
             else let s3 = perform (Session_StartTransaction cur) s2
                  in (Return (nil_or_error (ret_StartTransaction drv (history s3))), s3))"

definition CommitTransaction ::
  "driver \<Rightarrow> string \<Rightarrow> go_context \<Rightarrow> state \<Rightarrow> (error + unit) outcome \<times> state" where
  "CommitTransaction drv ident ctx s =
     (let cur = index_sess (sess (this s)) ident in
      if cur = NilSession then (Panic, s)
      else
        let s1 = perform (Session_CommitTransaction cur ctx) s in
        case ret_CommitTransaction drv (history s1) of
          Some err \<Rightarrow> (Return (Inl (Mongo err)), s1)
        | None \<Rightarrow>
            let cur' = index_sess (sess (this s1)) ident in
            if cur' = NilSession then (Panic, s1)
            else
              let s2 = perform (Session_EndSession cur' ctx) s1;
                  s3 = s2\<lparr>this := (this s2)\<lparr>sess := (sess (this s2))(ident := None)\<rparr>\<rparr>
              in (Return (Inr ()), s3))"

definition Ping :: "driver \<Rightarrow> state \<Rightarrow> error option \<times> state" where
  "Ping drv s =
     (let s1 = perform (Client_Ping (mcl (this s)) Background Primary) s
      in (as_error (ret_Ping drv (history s1)), s1))"

definition getCollection :: "MongoClient \<Rightarrow> collection \<times> error option" where
  "getCollection m = (Collection (Database (mcl m) database) tableTasks, None)"

definition no_options :: IndexOptions where
  "no_options =
     \<lparr>optExpireAfterSeconds = None, optName = None, optSparse = None, optUnique = None\<rparr>"

definition SetTTL :: "driver \<Rightarrow> state \<Rightarrow> (error + string) \<times> state" where
  "SetTTL drv s =
     (let ctx = WithCancel Background in
      case getCollection (this s) of
        (col, Some err) \<Rightarrow> (Inl err, perform (Ctx_Cancel ctx) s)
      | (col, None) \<Rightarrow>
          let s1 = perform (Indexes_DropOne col ctx ''TTL'') s;
              opts = no_options;
              opts = opts\<lparr>optName := Some ''TTL''\<rparr>;
              opts = opts\<lparr>optExpireAfterSeconds := Some (ExpDur (this s1))\<rparr>;
              model = \<lparr>modelKeys = [(''created_at'', 1)], modelOptions = opts\<rparr>;
              s2 = perform (Indexes_CreateOne col ctx model) s1
          in (map_sum Mongo id (ret_CreateOne drv (history s2)), perform (Ctx_Cancel ctx) s2))"

record IndexKey =
  Key :: string
  Desc :: bool

record Index =
  Keys :: "IndexKey list"
  Name :: string
  Unique :: bool
  Sparse :: bool

text \<open>The loop of \<^verbatim>\<open>Index.model\<close>, appending to \<open>keys\<close>.\<close>

fun model_keys :: "IndexKey list \<Rightarrow> (string \<times> int) list \<Rightarrow> (string \<times> int) list" where
  "model_keys [] keys = keys"
| "model_keys (k # ks) keys =
     (let d = (if Desc k then - 1 else 1) in model_keys ks (keys @ [(Key k, d)]))"

definition model :: "Index \<Rightarrow> IndexModel" where
  "model i =
     (let keys = model_keys (Keys i) [];
          opts = no_options;
          opts = (if Name i \<noteq> '''' then opts\<lparr>optName := Some (Name i)\<rparr> else opts);
          opts = opts\<lparr>optSparse := Some (Sparse i)\<rparr>;
          opts = opts\<lparr>optUnique := Some (Unique i)\<rparr>
      in \<lparr>modelKeys = keys, modelOptions = opts\<rparr>)"

text \<open>The loop of \<^verbatim>\<open>EnsureIndices\<close>, appending to \<open>models\<close>.\<close>

fun collect_models :: "Index list \<Rightarrow> IndexModel list \<Rightarrow> IndexModel list" where
  "collect_models [] models = models"
| "collect_models (ind # inds) models = collect_models inds (models @ [model ind])"

definition EnsureIndices :: "driver \<Rightarrow> Index list \<Rightarrow> state \<Rightarrow> error option \<times> state" where
  "EnsureIndices drv indices s =
     (let ctx = WithCancel Background in
      case getCollection (this s) of
        (col, Some err) \<Rightarrow> (Some err, perform (Ctx_Cancel ctx) s)
      | (col, None) \<Rightarrow>
          let models = collect_models indices [];
              s1 = perform (Indexes_CreateMany col ctx models) s
          in (case ret_CreateMany drv (history s1) of
               Inl err \<Rightarrow> (Some (Mongo err), perform (Ctx_Cancel ctx) s1)
             | Inr names \<Rightarrow> (None, perform (Ctx_Cancel ctx) s1)))"

definition DropIndices :: "driver \<Rightarrow> state \<Rightarrow> error option \<times> state" where
  "DropIndices drv s =
     (let ctx = WithCancel Background in
      case getCollection (this s) of
        (col, Some err) \<Rightarrow> (Some err, perform (Ctx_Cancel ctx) s)
      | (col, None) \<Rightarrow>
          let s1 = perform (Indexes_DropAll col ctx) s
          in (as_error (ret_DropAll drv (history s1)), perform (Ctx_Cancel ctx) s1))"

definition Close :: "driver \<Rightarrow> state \<Rightarrow> error option \<times> state" where
  "Close drv s =
     (let s1 = perform (Client_Disconnect (mcl (this s)) Background) s
      in (as_error (ret_Disconnect drv (history s1)), s1))"

definition Connect :: "driver \<Rightarrow> state \<Rightarrow> error option \<times> state" where
  "Connect drv s =
     (let s1 = perform (Client_Connect (mcl (this s)) Background) s
      in case ret_Connect drv (history s1) of
           Some err \<Rightarrow> (Some (Mongo err), s1)
         | None \<Rightarrow> (None, s1))"

definition Get :: "driver \<Rightarrow> bson \<Rightarrow> state \<Rightarrow> (error + single_result) \<times> state" where
  "Get drv q s =
     (let ctx = WithCancel Background in
      case getCollection (this s) of
        (col, Some err) \<Rightarrow> (Inl err, perform (Ctx_Cancel ctx) s)
      | (col, None) \<Rightarrow>
          let s1 = perform (Coll_FindOne col ctx q) s;
              resp = ret_FindOne drv (history s1)
          in (case single_err resp of
               Some err \<Rightarrow> (Inl (Mongo err), perform (Ctx_Cancel ctx) s1)
             | None \<Rightarrow> (Inr resp, perform (Ctx_Cancel ctx) s1)))"

definition Create :: "driver \<Rightarrow> bson \<Rightarrow> state \<Rightarrow> error option \<times> state" where
  "Create drv t s =
     (let ctx = WithCancel Background in
      case getCollection (this s) of
        (col, Some err) \<Rightarrow> (Some err, perform (Ctx_Cancel ctx) s)
      | (col, None) \<Rightarrow>
          let s1 = perform (Coll_InsertOne col ctx t) s
          in (as_error (ret_InsertOne drv (history s1)), perform (Ctx_Cancel ctx) s1))"

definition Update :: "driver \<Rightarrow> bson \<Rightarrow> bson \<Rightarrow> state \<Rightarrow> error option \<times> state" where
  "Update drv q val s =
     (let ctx = WithCancel Background in
      case getCollection (this s) of
        (col, Some err) \<Rightarrow> (Some err, perform (Ctx_Cancel ctx) s)
      | (col, None) \<Rightarrow>
          let s1 = perform (Coll_ReplaceOne col ctx q val) s
          in (case ret_ReplaceOne drv (history s1) of
               Inl err \<Rightarrow> (Some (Mongo err), perform (Ctx_Cancel ctx) s1)
             | Inr resp \<Rightarrow>
                 if MatchedCount resp = 0 then (Some ErrNotFound, perform (Ctx_Cancel ctx) s1)
                 else (None, perform (Ctx_Cancel ctx) s1)))"

definition UpdatePartial :: "driver \<Rightarrow> bson \<Rightarrow> bson \<Rightarrow> state \<Rightarrow> error option \<times> state" where
  "UpdatePartial drv q val s =
     (let ctx = WithCancel Background in
      case getCollection (this s) of
        (col, Some err) \<Rightarrow> (Some err, perform (Ctx_Cancel ctx) s)
      | (col, None) \<Rightarrow>
          let s1 = perform (Coll_UpdateOne col ctx q val) s
          in (case ret_UpdateOne drv (history s1) of
               Inl err \<Rightarrow> (Some (Mongo err), perform (Ctx_Cancel ctx) s1)
             | Inr resp \<Rightarrow>
                 if MatchedCount resp = 0 then (Some ErrNotFound, perform (Ctx_Cancel ctx) s1)
                 else (None, perform (Ctx_Cancel ctx) s1)))"

definition no_find_options :: FindOptions where
  "no_find_options = \<lparr>findSkip = None, findLimit = None\<rparr>"

text \<open>\<^verbatim>\<open>List\<close>. Go's \<^verbatim>\<open>int\<close> is 32 or 64 bits wide, so \<open>skip\<close> and \<open>limit\<close> are
  words of any width \<open>'w\<close>; \<^verbatim>\<open>int64(skip)\<close> is the signed cast.\<close>

definition List ::
  "driver \<Rightarrow> bson \<Rightarrow> 'w::len word \<Rightarrow> 'w word \<Rightarrow> state \<Rightarrow> (error + cursor) \<times> state" where
  "List drv q skip limit s =
     (let ctx = WithCancel Background in
      case getCollection (this s) of
        (col, Some err) \<Rightarrow> (Inl err, perform (Ctx_Cancel ctx) s)
      | (col, None) \<Rightarrow>
          let opt = no_find_options;
              opt = opt\<lparr>findSkip := Some (scast skip)\<rparr>;
              opt = opt\<lparr>findLimit := Some (scast limit)\<rparr>;
              s1 = perform (Coll_Find col ctx q opt) s
          in (case ret_Find drv (history s1) of
               Inl err \<Rightarrow> (Inl (Mongo err), perform (Ctx_Cancel ctx) s1)
             | Inr cursor \<Rightarrow>
                 (case cursor_err cursor of
                    Some err \<Rightarrow> (Inl (Mongo err), perform (Ctx_Cancel ctx) s1)
                  | None \<Rightarrow> (Inr cursor, perform (Ctx_Cancel ctx) s1))))"

definition Aggregate :: "driver \<Rightarrow> bson \<Rightarrow> state \<Rightarrow> (error + cursor) \<times> state" where
  "Aggregate drv q s =
     (let ctx = WithCancel Background in
      case getCollection (this s) of
        (col, Some err) \<Rightarrow> (Inl err, perform (Ctx_Cancel ctx) s)
      | (col, None) \<Rightarrow>
          let s1 = perform (Coll_Aggregate col ctx q) s
          in (case ret_Aggregate drv (history s1) of
               Inl err \<Rightarrow> (Inl (Mongo err), perform (Ctx_Cancel ctx) s1)
             | Inr cursor \<Rightarrow>
                 (case cursor_err cursor of
                    Some err \<Rightarrow> (Inl (Mongo err), perform (Ctx_Cancel ctx) s1)
                  | None \<Rightarrow> (Inr cursor, perform (Ctx_Cancel ctx) s1))))"

section \<open>Stores and clients to run the operations on\<close>

text \<open>A store that accepts every call: a session per request, one document matched
  by every filter, an empty cursor for every listing.\<close>

definition store_ok :: driver where
  "store_ok =
     \<lparr>ret_MongoConnect = (\<lambda>h. Inr (Client 1)),
      ret_StartSession = (\<lambda>h. Inr (SessionImpl (length h))),
      ret_StartTransaction = (\<lambda>h. None),
      ret_CommitTransaction = (\<lambda>h. None),
      ret_Ping = (\<lambda>h. None),
      ret_Disconnect = (\<lambda>h. None),
      ret_Connect = (\<lambda>h. None),
      ret_CreateOne = (\<lambda>h. Inr ''TTL''),
      ret_CreateMany = (\<lambda>h. Inr []),
      ret_DropAll = (\<lambda>h. None),
      ret_FindOne = (\<lambda>h. SingleResult None (BDoc [(''task_id'', BString ''a1'')])),
      ret_InsertOne = (\<lambda>h. None),
      ret_ReplaceOne = (\<lambda>h. Inr \<lparr>MatchedCount = 1, ModifiedCount = 1, UpsertedCount = 0\<rparr>),
      ret_UpdateOne = (\<lambda>h. Inr \<lparr>MatchedCount = 1, ModifiedCount = 1, UpsertedCount = 0\<rparr>),
      ret_Find = (\<lambda>h. Inr (Cursor None [])),
      ret_Aggregate = (\<lambda>h. Inr (Cursor None []))\<rparr>"

text \<open>The same store when no document matches the filter: \<^verbatim>\<open>FindOne\<close> reports
  \<^verbatim>\<open>mongo.ErrNoDocuments\<close>, the two updates report a matched count of zero and no
  error.\<close>

definition store_no_match :: driver where
  "store_no_match =
     store_ok
      \<lparr>ret_FindOne := (\<lambda>h. SingleResult (Some ErrNoDocuments) BNull),
       ret_ReplaceOne := (\<lambda>h. Inr \<lparr>MatchedCount = 0, ModifiedCount = 0, UpsertedCount = 0\<rparr>),
       ret_UpdateOne := (\<lambda>h. Inr \<lparr>MatchedCount = 0, ModifiedCount = 0, UpsertedCount = 0\<rparr>)\<rparr>"

text \<open>A client connected with a write concern of \<^verbatim>\<open>w=0\<close>: sessions start, and
  \<^verbatim>\<open>Session.StartTransaction\<close> refuses the unacknowledged write concern.\<close>

definition store_unacknowledged :: driver where
  "store_unacknowledged = store_ok\<lparr>ret_StartTransaction := (\<lambda>h. Some ErrUnackWCUnsupported)\<rparr>"

text \<open>A store that is unreachable: every call that can fail does.\<close>

definition store_down :: driver where
  "store_down =
     \<lparr>ret_MongoConnect = (\<lambda>h. Inl ErrClientDisconnected),
      ret_StartSession = (\<lambda>h. Inl ErrClientDisconnected),
      ret_StartTransaction = (\<lambda>h. Some ErrClientDisconnected),
      ret_CommitTransaction = (\<lambda>h. Some ErrClientDisconnected),
      ret_Ping = (\<lambda>h. Some ErrClientDisconnected),
      ret_Disconnect = (\<lambda>h. Some ErrClientDisconnected),
      ret_Connect = (\<lambda>h. Some ErrClientDisconnected),
      ret_CreateOne = (\<lambda>h. Inl ErrClientDisconnected),
      ret_CreateMany = (\<lambda>h. Inl ErrClientDisconnected),
      ret_DropAll = (\<lambda>h. Some ErrClientDisconnected),
      ret_FindOne = (\<lambda>h. SingleResult (Some ErrClientDisconnected) BNull),
      ret_InsertOne = (\<lambda>h. Some ErrClientDisconnected),
      ret_ReplaceOne = (\<lambda>h. Inl ErrClientDisconnected),
      ret_UpdateOne = (\<lambda>h. Inl ErrClientDisconnected),
      ret_Find = (\<lambda>h. Inl ErrClientDisconnected),
      ret_Aggregate = (\<lambda>h. Inl ErrClientDisconnected)\<rparr>"

text \<open>The client \<^verbatim>\<open>NewMongoClient\<close> returns for a TTL of one hour, before any other
  call.\<close>

definition fresh :: state where
  "fresh =
     \<lparr>this = \<lparr>URL = ''mongodb://localhost:27017'', ExpDur = 3600, mcl = Client 1,
              sess = Map.empty\<rparr>,
      history = [Mongo_Connect Background ''mongodb://localhost:27017'']\<rparr>"

text \<open>The same client with the transaction \<open>t1\<close> active on session 7.\<close>

definition in_transaction :: state where
  "in_transaction = fresh\<lparr>this := (this fresh)\<lparr>sess := [''t1'' \<mapsto> SessionImpl 7]\<rparr>\<rparr>"

text \<open>The client \<^verbatim>\<open>NewMongoClient\<close> returns for a TTL of one and a half seconds.\<close>

definition short_lived :: state where
  "short_lived =
     \<lparr>this = \<lparr>URL = ''mongodb://localhost:27017'', ExpDur = 1, mcl = Client 1,
              sess = Map.empty\<rparr>,
      history = [Mongo_Connect Background ''mongodb://localhost:27017'']\<rparr>"

section \<open>Facts about the seconds of a duration\<close>

lemma round_half_even_of_int: "round_half_even (of_int n) = n"
  by (simp add: round_half_even_def)

text \<open>The exponent is the binary exponent.\<close>

lemma ilog2_bounds:
  assumes "x \<noteq> 0"
  shows "2 powi ilog2 x \<le> \<bar>x\<bar> \<and> \<bar>x\<bar> < 2 powi (ilog2 x + 1)"
proof (cases "1 \<le> \<bar>x\<bar>")
  case True
  define n where "n = \<lfloor>\<bar>x\<bar>\<rfloor>"
  have n: "0 < n"
    using True by (simp add: n_def)
  define e where "e = nat (bitlen n - 1)"
  have b: "bitlen n = int e + 1"
    using n bitlen_bounds [OF n] bitlen_nonneg [of n] bitlen_eq_zero_iff [of n]
    by (simp add: e_def)
  have lo: "2 ^ e \<le> n" and hi: "n < 2 ^ Suc e"
    using bitlen_bounds [OF n] by (simp_all add: b nat_add_distrib flip: e_def)
  have il: "ilog2 x = int e"
    using True by (simp add: ilog2_def b flip: n_def)
  have "(2::rat) ^ e \<le> of_int n"
    using lo by (metis of_int_le_iff of_int_numeral of_int_power)
  also have "\<dots> \<le> \<bar>x\<bar>"
    by (simp add: n_def)
  finally have 1: "(2::rat) ^ e \<le> \<bar>x\<bar>" .
  have "\<bar>x\<bar> < of_int (n + 1)"
    unfolding n_def by linarith
  also have "\<dots> \<le> of_int (2 ^ Suc e)"
    using hi by (simp only: of_int_le_iff)
  finally have 2: "\<bar>x\<bar> < (2::rat) ^ Suc e"
    by simp
  show ?thesis
    using 1 2 by (simp add: il power_int_add)
next
  case False
  define y where "y = 1 / \<bar>x\<bar>"
  have x: "0 < \<bar>x\<bar>" "\<bar>x\<bar> < 1"
    using assms False by simp_all
  then have y: "1 < y"
    by (simp add: y_def)
  define m where "m = \<lceil>y\<rceil> - 1"
  have m: "0 < m"
    using y by (simp add: m_def)
  have my: "of_int m < y" "y \<le> of_int m + 1"
    unfolding m_def by linarith+
  define e where "e = nat (bitlen m - 1)"
  have b: "bitlen m = int e + 1"
    using m bitlen_bounds [OF m] bitlen_nonneg [of m] bitlen_eq_zero_iff [of m]
    by (simp add: e_def)
  have lo: "2 ^ e \<le> m" and hi: "m < 2 ^ Suc e"
    using bitlen_bounds [OF m] by (simp_all add: b nat_add_distrib flip: e_def)
  have il: "ilog2 x = - (int e + 1)"
    using False by (simp add: ilog2_def b flip: y_def m_def)
  have "(2::rat) ^ e \<le> of_int m"
    using lo by (metis of_int_le_iff of_int_numeral of_int_power)
  from this my(1) have 1: "(2::rat) ^ e < y"
    by (rule le_less_trans)
  have "m + 1 \<le> 2 ^ Suc e"
    using hi by simp
  then have "(of_int (m + 1) :: rat) \<le> of_int (2 ^ Suc e)"
    by (simp only: of_int_le_iff)
  then have "of_int m + 1 \<le> (2::rat) ^ Suc e"
    by simp
  with my(2) have 2: "y \<le> (2::rat) ^ Suc e"
    by (rule order_trans)
  have xy: "\<bar>x\<bar> = 1 / y"
    by (simp add: y_def)
  have neg: "(2::rat) powi (- int k) = 1 / 2 ^ k" for k
    by (simp only: power_int_minus power_int_of_nat inverse_eq_divide)
  have i1: "- (int e + 1) = - int (Suc e)" and i2: "- (int e + 1) + 1 = - int e"
    by simp_all
  have "1 / (2::rat) ^ Suc e \<le> 1 / y"
    using 2 y by (intro divide_left_mono) simp_all
  moreover have "1 / y < 1 / (2::rat) ^ e"
    using 1 y by (intro divide_strict_left_mono) simp_all
  ultimately show ?thesis
    unfolding xy il i2 unfolding i1 neg by simp
qed

text \<open>An integer below \<open>2\<^sup>5\<^sup>3\<close> in magnitude is a float64: rounding keeps it.\<close>

lemma ilog2_of_int_le:
  assumes "k \<noteq> 0" and "\<bar>k\<bar> < 2 ^ 53"
  shows "ilog2 (of_int k) \<le> 52"
proof -
  have "1 \<le> \<bar>k\<bar>"
    using assms(1) by simp
  then have "(1::rat) \<le> of_int \<bar>k\<bar>"
    by (simp only: of_int_1_le_iff)
  then have one: "(1::rat) \<le> \<bar>of_int k\<bar>"
    by simp
  have "bitlen \<bar>k\<bar> \<le> 53"
    using assms(2) by (simp add: bitlen_le_iff_power)
  moreover have "ilog2 (of_int k) = bitlen \<bar>k\<bar> - 1"
    using one by (simp add: ilog2_def flip: of_int_abs)
  ultimately show ?thesis
    by simp
qed

lemma float64_of_int:
  assumes "\<bar>k\<bar> < 2 ^ 53"
  shows "float64 (of_int k) = of_int k"
proof (cases "k = 0")
  case True
  then show ?thesis by (simp add: float64_def)
next
  case False
  define n where "n = nat (52 - ilog2 (of_int k))"
  have e: "ilog2 (of_int k) - 52 = - int n"
    using ilog2_of_int_le [OF False assms] by (simp add: n_def)
  have ulp: "(2::rat) powi (ilog2 (of_int k) - 52) = 1 / 2 ^ n"
    unfolding e by (simp add: power_int_minus field_simps)
  have "(of_int k :: rat) / (1 / 2 ^ n) = of_int (k * 2 ^ n)"
    by simp
  then have "round_half_even (of_int k / (1 / 2 ^ n)) = k * 2 ^ n"
    by (simp only: round_half_even_of_int)
  then show ?thesis
    using False by (simp add: float64_def ulp Let_def)
qed

text \<open>The seconds of a whole number of seconds are that number, exactly.\<close>

lemma Seconds_whole:
  assumes "sint d = k * 1000000000"
  shows "Seconds d = of_int k"
proof -
  have "sint d < 2 ^ 63" "- (2 ^ 63) \<le> sint d"
    using sint_lt [of d] sint_ge [of d] by simp_all
  with assms have k: "\<bar>k\<bar> < 2 ^ 53"
    by simp
  have sec: "sint d sdiv 1000000000 = k"
    by (simp add: assms signed_divide_int_def abs_mult sgn_mult mult_sgn_abs)
  have nsec: "sint d smod 1000000000 = 0"
    by (simp add: assms signed_modulo_int_def abs_mult)
  have giga: "float64 1000000000 = 1000000000"
    using float64_of_int [of 1000000000] by simp
  have zero: "float64 0 = 0"
    by (simp add: float64_def)
  show ?thesis
    by (simp add: Seconds_def sec nsec giga zero float64_of_int [OF k])
qed

lemma int32_of_float64_of_int:
  assumes "- 2147483648 \<le> k" and "k < 2147483648"
  shows "int32_of_float64 (of_int k) = word_of_int k"
    and "sint (int32_of_float64 (of_int k)) = k"
  using assms by (simp_all add: int32_of_float64_def signed_of_int signed_take_bit_int_eq_self)

text \<open>The float64 route is not the integer quotient: a fraction is cut off, and a fraction
  within half a unit in the last place of the next integer is rounded up to it first.\<close>

lemma Seconds_one_and_a_half: "int32_of_float64 (Seconds 1500000000) = 1"
  by code_simp

lemma Seconds_rounds_up: "int32_of_float64 (Seconds 16777216999999999) = 16777217"
  by code_simp

lemma Seconds_one_hour: "int32_of_float64 (Seconds 3600000000000) = 3600"
  by code_simp

section \<open>Facts about the loops\<close>

lemma model_keys_append:
  "model_keys ks keys = keys @ map (\<lambda>k. (Key k, if Desc k then - 1 else 1)) ks"
  by (induction ks arbitrary: keys) simp_all

lemma collect_models_append: "collect_models inds models = models @ map model inds"
  by (induction inds arbitrary: models) simp_all

section \<open>The session map\<close>

text \<open>
  C1. The spec asks that \<^verbatim>\<open>CommitTransaction(id, ctx)\<close> on an identifier with no entry
  in the session map fail with a session error and leave the map unchanged, rather than
  fault. The code indexes the map without a presence check: the lookup of a missing key
  yields the nil \<^verbatim>\<open>mongo.Session\<close>, and the call of \<^verbatim>\<open>CommitTransaction\<close> on it
  panics. For every absent identifier the operation panics before it reaches the store;
  no error value is returned. The state at the panic is the state before the call.
\<close>

theorem CommitTransaction_absent_panics:
  assumes "sess (this s) ident = None"
  shows "CommitTransaction drv ident ctx s = (Panic, s)"
  using assms by (simp add: CommitTransaction_def index_sess_def)

theorem CommitTransaction_absent_panics_witness:
  "sess (this fresh) ''t1'' = None
   \<and> CommitTransaction store_ok ''t1'' Background fresh = (Panic, fresh)"
proof -
  have absent: "sess (this fresh) ''t1'' = None"
    by (simp add: fresh_def)
  from CommitTransaction_absent_panics [OF absent] absent show ?thesis
    by simp
qed

text \<open>
  C2. The spec asks that a failed \<^verbatim>\<open>StartTransaction(id)\<close> leave no entry for
  \<open>id\<close> in the session map. The code stores the new session under \<open>id\<close> before it
  starts the transaction on it and returns the error of that start as it is: whenever the
  store hands out a session and then refuses to start the transaction, the operation
  returns the error and the map holds the new session under \<open>id\<close>.
\<close>

theorem StartTransaction_failed_start_leaks_entry:
  assumes "ret_StartSession drv (history s @ [Client_StartSession (mcl (this s))])
             = Inr (SessionImpl n)"
    and "ret_StartTransaction drv
           (history s @ [Client_StartSession (mcl (this s)),
                         Session_StartTransaction (SessionImpl n)]) = Some err"
  shows "fst (StartTransaction drv ident s) = Return (Inl (Mongo err))
         \<and> sess (this (snd (StartTransaction drv ident s))) ident = Some (SessionImpl n)"
  using assms
  by (simp add: StartTransaction_def Let_def perform_def index_sess_def nil_or_error_def)

theorem StartTransaction_failed_start_leaks_entry_witness:
  "sess (this fresh) ''t1'' = None
   \<and> fst (StartTransaction store_unacknowledged ''t1'' fresh)
       = Return (Inl (Mongo ErrUnackWCUnsupported))
   \<and> sess (this (snd (StartTransaction store_unacknowledged ''t1'' fresh))) ''t1''
       = Some (SessionImpl 2)"
proof -
  have a: "ret_StartSession store_unacknowledged
             (history fresh @ [Client_StartSession (mcl (this fresh))]) = Inr (SessionImpl 2)"
    by (simp add: store_unacknowledged_def store_ok_def fresh_def)
  have b: "ret_StartTransaction store_unacknowledged
             (history fresh @ [Client_StartSession (mcl (this fresh)),
                               Session_StartTransaction (SessionImpl 2)])
             = Some ErrUnackWCUnsupported"
    by (simp add: store_unacknowledged_def store_ok_def)
  have c: "sess (this fresh) ''t1'' = None"
    by (simp add: fresh_def)
  from StartTransaction_failed_start_leaks_entry [OF a b, of "''t1''"] c show ?thesis
    by simp
qed

text \<open>
  C3. For an identifier that is active, mapped to an open session,
  \<^verbatim>\<open>CommitTransaction(id, ctx)\<close> commits the transaction on that session with the
  caller's context. When the commit succeeds it ends the session, removes the entry and
  returns no error; when the commit fails it returns the store's error, makes no further
  call (the session is not ended) and leaves the session map as it was.
\<close>

theorem CommitTransaction_active:
  assumes "sess (this s) ident = Some (SessionImpl n)"
  shows "CommitTransaction drv ident ctx s =
    (case ret_CommitTransaction drv
            (history s @ [Session_CommitTransaction (SessionImpl n) ctx]) of
       None \<Rightarrow>
         (Return (Inr ()),
          s\<lparr>this := (this s)\<lparr>sess := (sess (this s))(ident := None)\<rparr>,
            history := history s @ [Session_CommitTransaction (SessionImpl n) ctx,
                                    Session_EndSession (SessionImpl n) ctx]\<rparr>)
     | Some err \<Rightarrow>
         (Return (Inl (Mongo err)),
          s\<lparr>history := history s @ [Session_CommitTransaction (SessionImpl n) ctx]\<rparr>))"
  using assms
  by (simp add: CommitTransaction_def Let_def perform_def index_sess_def split: option.splits)


theorem CommitTransaction_active_witness:
  "sess (this in_transaction) ''t1'' = Some (SessionImpl 7)
   \<and> fst (CommitTransaction store_ok ''t1'' Background in_transaction) = Return (Inr ())
   \<and> sess (this (snd (CommitTransaction store_ok ''t1'' Background in_transaction))) ''t1''
       = None
   \<and> new_calls in_transaction (snd (CommitTransaction store_ok ''t1'' Background in_transaction))
       = [Session_CommitTransaction (SessionImpl 7) Background,
          Session_EndSession (SessionImpl 7) Background]
   \<and> fst (CommitTransaction store_down ''t1'' Background in_transaction)
       = Return (Inl (Mongo ErrClientDisconnected))
   \<and> sess (this (snd (CommitTransaction store_down ''t1'' Background in_transaction))) ''t1''
       = Some (SessionImpl 7)
   \<and> new_calls in_transaction
         (snd (CommitTransaction store_down ''t1'' Background in_transaction))
       = [Session_CommitTransaction (SessionImpl 7) Background]"
proof -
  have active: "sess (this in_transaction) ''t1'' = Some (SessionImpl 7)"
    by (simp add: in_transaction_def)
  have ok: "ret_CommitTransaction store_ok h = None" for h
    by (simp add: store_ok_def)
  have down: "ret_CommitTransaction store_down h = Some ErrClientDisconnected" for h
    by (simp add: store_down_def)
  from active
    CommitTransaction_active [OF active, of store_ok Background]
    CommitTransaction_active [OF active, of store_down Background]
  show ?thesis
    by (simp add: ok down new_calls_def)
qed

section \<open>Reading and writing documents\<close>

text \<open>
  C4. The spec asks that \<^verbatim>\<open>Get(query)\<close> fail with the layer's own not-found error
  when the store reports no match. The code returns \<^verbatim>\<open>resp.Err()\<close> as the store gave
  it: whatever error the single result carries, \<^verbatim>\<open>mongo.ErrNoDocuments\<close> included, is
  the error of \<^verbatim>\<open>Get\<close>, which is never \<^verbatim>\<open>ErrNotFound\<close>.
\<close>

theorem Get_passes_store_error_through:
  assumes "single_err (ret_FindOne drv
             (history s @ [Coll_FindOne (Collection (Database (mcl (this s)) ''cogman'') ''tasks'')
                             (WithCancel Background) q])) = Some err"
  shows "fst (Get drv q s) = Inl (Mongo err) \<and> fst (Get drv q s) \<noteq> Inl ErrNotFound"
  using assms
  by (simp add: Get_def getCollection_def database_def tableTasks_def Let_def perform_def)

theorem Get_passes_store_error_through_witness:
  "fst (Get store_no_match (BDoc [(''task_id'', BString ''zz'')]) fresh)
     = Inl (Mongo ErrNoDocuments)
   \<and> fst (Get store_no_match (BDoc [(''task_id'', BString ''zz'')]) fresh) \<noteq> Inl ErrNotFound"
proof -
  have "single_err (ret_FindOne store_no_match h) = Some ErrNoDocuments" for h
    by (simp add: store_no_match_def)
  from Get_passes_store_error_through [OF this] show ?thesis .
qed

text \<open>
  C5. \<^verbatim>\<open>Update(query, replacement)\<close> issues one \<^verbatim>\<open>ReplaceOne\<close> and
  \<^verbatim>\<open>UpdatePartial(query, patch)\<close> one \<^verbatim>\<open>UpdateOne\<close> on the fixed collection, with
  the query and the value as given. Each returns \<^verbatim>\<open>ErrNotFound\<close> exactly when the store
  answers without error and with a matched count of zero, returns no error exactly when
  the store answers without error and with a matched count other than zero, and returns
  the store's own error whenever the store fails.
\<close>

theorem Update_and_UpdatePartial_contract:
  fixes drv :: driver and q v :: bson and s :: state
  defines "col \<equiv> Collection (Database (mcl (this s)) ''cogman'') ''tasks''"
  defines "ctx \<equiv> WithCancel Background"
  defines "replaced \<equiv> ret_ReplaceOne drv (history s @ [Coll_ReplaceOne col ctx q v])"
  defines "updated \<equiv> ret_UpdateOne drv (history s @ [Coll_UpdateOne col ctx q v])"
  shows "new_calls s (snd (Update drv q v s)) = [Coll_ReplaceOne col ctx q v, Ctx_Cancel ctx]
    \<and> (fst (Update drv q v s) = Some ErrNotFound
         \<longleftrightarrow> (\<exists>resp. replaced = Inr resp \<and> MatchedCount resp = 0))
    \<and> (fst (Update drv q v s) = None
         \<longleftrightarrow> (\<exists>resp. replaced = Inr resp \<and> MatchedCount resp \<noteq> 0))
    \<and> (\<forall>err. replaced = Inl err \<longrightarrow> fst (Update drv q v s) = Some (Mongo err))
    \<and> new_calls s (snd (UpdatePartial drv q v s)) = [Coll_UpdateOne col ctx q v, Ctx_Cancel ctx]
    \<and> (fst (UpdatePartial drv q v s) = Some ErrNotFound
         \<longleftrightarrow> (\<exists>resp. updated = Inr resp \<and> MatchedCount resp = 0))
    \<and> (fst (UpdatePartial drv q v s) = None
         \<longleftrightarrow> (\<exists>resp. updated = Inr resp \<and> MatchedCount resp \<noteq> 0))
    \<and> (\<forall>err. updated = Inl err \<longrightarrow> fst (UpdatePartial drv q v s) = Some (Mongo err))"
proof -
  have U: "new_calls s (snd (Update drv q v s)) = [Coll_ReplaceOne col ctx q v, Ctx_Cancel ctx]"
    by (simp add: Update_def getCollection_def database_def tableTasks_def Let_def
        perform_def new_calls_def col_def ctx_def split: sum.splits)
  have U1: "fst (Update drv q v s) =
      (case replaced of Inl err \<Rightarrow> Some (Mongo err)
       | Inr resp \<Rightarrow> if MatchedCount resp = 0 then Some ErrNotFound else None)"
    by (simp add: Update_def getCollection_def database_def tableTasks_def Let_def
        perform_def replaced_def col_def ctx_def split: sum.splits)
  have P: "new_calls s (snd (UpdatePartial drv q v s))
      = [Coll_UpdateOne col ctx q v, Ctx_Cancel ctx]"
    by (simp add: UpdatePartial_def getCollection_def database_def tableTasks_def Let_def
        perform_def new_calls_def col_def ctx_def split: sum.splits)
  have P1: "fst (UpdatePartial drv q v s) =
      (case updated of Inl err \<Rightarrow> Some (Mongo err)
       | Inr resp \<Rightarrow> if MatchedCount resp = 0 then Some ErrNotFound else None)"
    by (simp add: UpdatePartial_def getCollection_def database_def tableTasks_def Let_def
        perform_def updated_def col_def ctx_def split: sum.splits)
  show ?thesis
    unfolding U U1 P P1 by (auto split: sum.splits)
qed


theorem Update_and_UpdatePartial_contract_witness:
  "fst (Update store_no_match (BDoc [(''task_id'', BString ''zz'')]) (BDoc []) fresh)
     = Some ErrNotFound
   \<and> fst (UpdatePartial store_no_match (BDoc [(''task_id'', BString ''zz'')]) (BDoc []) fresh)
     = Some ErrNotFound
   \<and> fst (Update store_ok (BDoc [(''task_id'', BString ''zz'')]) (BDoc []) fresh) = None
   \<and> fst (UpdatePartial store_ok (BDoc [(''task_id'', BString ''zz'')]) (BDoc []) fresh) = None
   \<and> fst (Update store_down (BDoc [(''task_id'', BString ''zz'')]) (BDoc []) fresh)
     = Some (Mongo ErrClientDisconnected)
   \<and> fst (UpdatePartial store_down (BDoc [(''task_id'', BString ''zz'')]) (BDoc []) fresh)
     = Some (Mongo ErrClientDisconnected)"
proof -
  note contract = Update_and_UpdatePartial_contract
    [where q = "BDoc [(''task_id'', BString ''zz'')]" and v = "BDoc []" and s = fresh]
  have none: "ret_ReplaceOne store_no_match h
                = Inr \<lparr>MatchedCount = 0, ModifiedCount = 0, UpsertedCount = 0\<rparr>"
             "ret_UpdateOne store_no_match h
                = Inr \<lparr>MatchedCount = 0, ModifiedCount = 0, UpsertedCount = 0\<rparr>" for h
    by (simp_all add: store_no_match_def)
  have one: "ret_ReplaceOne store_ok h
                = Inr \<lparr>MatchedCount = 1, ModifiedCount = 1, UpsertedCount = 0\<rparr>"
            "ret_UpdateOne store_ok h
                = Inr \<lparr>MatchedCount = 1, ModifiedCount = 1, UpsertedCount = 0\<rparr>" for h
    by (simp_all add: store_ok_def)
  have down: "ret_ReplaceOne store_down h = Inl ErrClientDisconnected"
             "ret_UpdateOne store_down h = Inl ErrClientDisconnected" for h
    by (simp_all add: store_down_def)
  from contract [where drv = store_no_match] contract [where drv = store_ok]
    contract [where drv = store_down]
  show ?thesis
    by (simp add: none one down)
qed

section \<open>Indices\<close>

text \<open>
  C6. \<^verbatim>\<open>SetTTL()\<close> makes two calls on the index view of the fixed collection and
  then cancels its context: a drop of the index named TTL, of which it reads nothing, and
  the creation of one index with the single key \<^verbatim>\<open>created_at\<close> ascending, the name
  TTL and \<^verbatim>\<open>expireAfterSeconds\<close> set to the expiry the client holds. Its result is the
  result of the creation alone, so it fails only if the creation fails. On the client
  that \<^verbatim>\<open>NewMongoClient\<close> built from a TTL, whatever its session map has become, that
  expiry is \<^verbatim>\<open>int32(ttl.Seconds())\<close>; it is the TTL in seconds whenever the TTL is a
  whole number of seconds that fits 32 bits. It is not the TTL in seconds for every TTL:
  of one and a half seconds the index gets one second.
\<close>

theorem SetTTL_drops_then_creates:
  fixes drv :: driver and s :: state and ttl :: "64 word"
  defines "col \<equiv> Collection (Database (mcl (this s)) ''cogman'') ''tasks''"
  defines "ctx \<equiv> WithCancel Background"
  defines "ttl_index \<equiv>
    \<lparr>modelKeys = [(''created_at'', 1)],
     modelOptions = \<lparr>optExpireAfterSeconds = Some (ExpDur (this s)), optName = Some ''TTL'',
                     optSparse = None, optUnique = None\<rparr>\<rparr>"
  shows "new_calls s (snd (SetTTL drv s))
           = [Indexes_DropOne col ctx ''TTL'', Indexes_CreateOne col ctx ttl_index, Ctx_Cancel ctx]
    \<and> fst (SetTTL drv s)
           = map_sum Mongo id
               (ret_CreateOne drv
                  (history s @ [Indexes_DropOne col ctx ''TTL'',
                                Indexes_CreateOne col ctx ttl_index]))
    \<and> (\<forall>m ss. fst (NewMongoClient drv url ttl h) = Inr m \<and> this s = m\<lparr>sess := ss\<rparr>
          \<longrightarrow> ExpDur (this s) = int32_of_float64 (Seconds ttl)
              \<and> (\<forall>k. sint ttl = k * 1000000000 \<and> - 2147483648 \<le> k \<and> k < 2147483648
                     \<longrightarrow> sint (ExpDur (this s)) = k))"
proof -
  have calls: "new_calls s (snd (SetTTL drv s))
           = [Indexes_DropOne col ctx ''TTL'', Indexes_CreateOne col ctx ttl_index, Ctx_Cancel ctx]"
    by (simp add: SetTTL_def getCollection_def database_def tableTasks_def Let_def perform_def
        new_calls_def no_options_def col_def ctx_def ttl_index_def)
  have result: "fst (SetTTL drv s)
           = map_sum Mongo id
               (ret_CreateOne drv
                  (history s @ [Indexes_DropOne col ctx ''TTL'',
                                Indexes_CreateOne col ctx ttl_index]))"
    by (simp add: SetTTL_def getCollection_def database_def tableTasks_def Let_def perform_def
        no_options_def col_def ctx_def ttl_index_def)
  have built: "\<forall>m ss. fst (NewMongoClient drv url ttl h) = Inr m \<and> this s = m\<lparr>sess := ss\<rparr>
          \<longrightarrow> ExpDur (this s) = int32_of_float64 (Seconds ttl)
              \<and> (\<forall>k. sint ttl = k * 1000000000 \<and> - 2147483648 \<le> k \<and> k < 2147483648
                     \<longrightarrow> sint (ExpDur (this s)) = k)"
  proof (intro allI impI)
    fix m ss
    assume "fst (NewMongoClient drv url ttl h) = Inr m \<and> this s = m\<lparr>sess := ss\<rparr>"
    then have m: "fst (NewMongoClient drv url ttl h) = Inr m" and s: "this s = m\<lparr>sess := ss\<rparr>"
      by simp_all
    from m have "ExpDur m = int32_of_float64 (Seconds ttl)"
      by (auto simp add: NewMongoClient_def Let_def split: sum.splits)
    with s have stored: "ExpDur (this s) = int32_of_float64 (Seconds ttl)"
      by simp
    have "sint (ExpDur (this s)) = k"
      if "sint ttl = k * 1000000000 \<and> - 2147483648 \<le> k \<and> k < 2147483648" for k
    proof -
      from that have whole: "sint ttl = k * 1000000000"
        and range: "- 2147483648 \<le> k" "k < 2147483648"
        by simp_all
      show ?thesis
        unfolding stored Seconds_whole [OF whole] by (rule int32_of_float64_of_int(2) [OF range])
    qed
    with stored
    show "ExpDur (this s) = int32_of_float64 (Seconds ttl)
        \<and> (\<forall>k. sint ttl = k * 1000000000 \<and> - 2147483648 \<le> k \<and> k < 2147483648
               \<longrightarrow> sint (ExpDur (this s)) = k)"
      by blast
  qed
  from calls result built show ?thesis
    by (intro conjI)
qed

theorem SetTTL_drops_then_creates_witness:
  "fst (NewMongoClient store_ok ''mongodb://localhost:27017'' 3600000000000 [])
     = Inr (this fresh)
   \<and> sint (3600000000000 :: 64 word) = 3600 * 1000000000
   \<and> sint (ExpDur (this fresh)) = 3600
   \<and> fst (SetTTL store_ok fresh) = Inr ''TTL''
   \<and> fst (SetTTL store_down fresh) = Inl (Mongo ErrClientDisconnected)
   \<and> new_calls fresh (snd (SetTTL store_down fresh))
       = [Indexes_DropOne (Collection (Database (Client 1) ''cogman'') ''tasks'')
            (WithCancel Background) ''TTL'',
          Indexes_CreateOne (Collection (Database (Client 1) ''cogman'') ''tasks'')
            (WithCancel Background)
            \<lparr>modelKeys = [(''created_at'', 1)],
             modelOptions = \<lparr>optExpireAfterSeconds = Some 3600, optName = Some ''TTL'',
                             optSparse = None, optUnique = None\<rparr>\<rparr>,
          Ctx_Cancel (WithCancel Background)]"
proof -
  have new: "fst (NewMongoClient store_ok ''mongodb://localhost:27017'' 3600000000000 [])
      = Inr (this fresh)"
    by (simp add: NewMongoClient_def store_ok_def fresh_def Seconds_one_hour)
  have same: "this fresh = (this fresh)\<lparr>sess := Map.empty\<rparr>"
    by (simp add: fresh_def)
  have hour: "sint (3600000000000 :: 64 word) = 3600 * 1000000000"
    by simp
  have ok: "ret_CreateOne store_ok h = Inr ''TTL''" for h
    by (simp add: store_ok_def)
  have down: "ret_CreateOne store_down h = Inl ErrClientDisconnected" for h
    by (simp add: store_down_def)
  have client: "mcl (this fresh) = Client 1"
    by (simp add: fresh_def)
  note ttl = SetTTL_drops_then_creates
    [where s = fresh and url = "''mongodb://localhost:27017''" and ttl = 3600000000000
       and h = "[]"]
  note calls_down = ttl [where drv = store_down, THEN conjunct1]
  note result_ok = ttl [where drv = store_ok, THEN conjunct2, THEN conjunct1]
  note result_down = ttl [where drv = store_down, THEN conjunct2, THEN conjunct1]
  note built = ttl [where drv = store_ok, THEN conjunct2, THEN conjunct2, rule_format,
      of "this fresh" Map.empty]
  from new same
  have "fst (NewMongoClient store_ok ''mongodb://localhost:27017'' 3600000000000 [])
          = Inr (this fresh)
        \<and> this fresh = (this fresh)\<lparr>sess := Map.empty\<rparr>"
    by (rule conjI)
  note expiry = built [OF this]
  have "sint (3600000000000 :: 64 word) = 3600 * 1000000000
        \<and> - 2147483648 \<le> (3600::int) \<and> (3600::int) < 2147483648"
    by simp
  note seconds = expiry [THEN conjunct2, rule_format, OF this]
  have stored: "ExpDur (this fresh) = 3600"
    using expiry [THEN conjunct1] by (simp only: Seconds_one_hour)
  from new hour seconds calls_down result_ok result_down show ?thesis
    by (simp add: ok down client stored)
qed

theorem SetTTL_expiry_counterexample:
  "NewMongoClient store_ok ''mongodb://localhost:27017'' 1500000000 []
     = (Inr (this short_lived), history short_lived)
   \<and> new_calls short_lived (snd (SetTTL store_ok short_lived))
       = [Indexes_DropOne (Collection (Database (Client 1) ''cogman'') ''tasks'')
            (WithCancel Background) ''TTL'',
          Indexes_CreateOne (Collection (Database (Client 1) ''cogman'') ''tasks'')
            (WithCancel Background)
            \<lparr>modelKeys = [(''created_at'', 1)],
             modelOptions = \<lparr>optExpireAfterSeconds = Some 1, optName = Some ''TTL'',
                             optSparse = None, optUnique = None\<rparr>\<rparr>,
          Ctx_Cancel (WithCancel Background)]
   \<and> sint (1 :: 32 word) * 1000000000 \<noteq> sint (1500000000 :: 64 word)"
proof -
  have new: "NewMongoClient store_ok ''mongodb://localhost:27017'' 1500000000 []
      = (Inr (this short_lived), history short_lived)"
    by (simp add: NewMongoClient_def store_ok_def short_lived_def Seconds_one_and_a_half)
  have calls: "new_calls short_lived (snd (SetTTL store_ok short_lived))
       = [Indexes_DropOne (Collection (Database (Client 1) ''cogman'') ''tasks'')
            (WithCancel Background) ''TTL'',
          Indexes_CreateOne (Collection (Database (Client 1) ''cogman'') ''tasks'')
            (WithCancel Background)
            \<lparr>modelKeys = [(''created_at'', 1)],
             modelOptions = \<lparr>optExpireAfterSeconds = Some 1, optName = Some ''TTL'',
                             optSparse = None, optUnique = None\<rparr>\<rparr>,
          Ctx_Cancel (WithCancel Background)]"
    by (simp add: SetTTL_def getCollection_def database_def tableTasks_def Let_def perform_def
        new_calls_def no_options_def short_lived_def)
  have differ: "sint (1 :: 32 word) * 1000000000 \<noteq> sint (1500000000 :: 64 word)"
    by simp
  from new calls differ show ?thesis
    by simp
qed

text \<open>
  C7. \<^verbatim>\<open>EnsureIndices(indices)\<close> builds one index model per descriptor, in order,
  and submits them all in a single \<^verbatim>\<open>CreateMany\<close> call; it returns the error of that
  call, or none. The model of a descriptor has one key per descriptor key, with direction
  \<open>-1\<close> when the key is descending and \<open>1\<close> otherwise, the sparse and unique flags
  always set from the descriptor, the name set only when it is not empty, and no expiry.
\<close>

theorem EnsureIndices_one_batch:
  fixes drv :: driver and indices :: "Index list" and s :: state
  defines "col \<equiv> Collection (Database (mcl (this s)) ''cogman'') ''tasks''"
  defines "ctx \<equiv> WithCancel Background"
  defines "batch \<equiv> Indexes_CreateMany col ctx (map model indices)"
  shows "new_calls s (snd (EnsureIndices drv indices s)) = [batch, Ctx_Cancel ctx]
    \<and> length (map model indices) = length indices
    \<and> fst (EnsureIndices drv indices s)
        = (case ret_CreateMany drv (history s @ [batch]) of
             Inl err \<Rightarrow> Some (Mongo err)
           | Inr names \<Rightarrow> None)
    \<and> model i =
        \<lparr>modelKeys = map (\<lambda>k. (Key k, if Desc k then - 1 else 1)) (Keys i),
         modelOptions =
           \<lparr>optExpireAfterSeconds = None,
            optName = (if Name i = '''' then None else Some (Name i)),
            optSparse = Some (Sparse i),
            optUnique = Some (Unique i)\<rparr>\<rparr>"
proof -
  have calls: "new_calls s (snd (EnsureIndices drv indices s)) = [batch, Ctx_Cancel ctx]"
    by (simp add: EnsureIndices_def getCollection_def database_def tableTasks_def Let_def
        perform_def new_calls_def collect_models_append col_def ctx_def batch_def
        split: sum.splits)
  have result: "fst (EnsureIndices drv indices s)
        = (case ret_CreateMany drv (history s @ [batch]) of
             Inl err \<Rightarrow> Some (Mongo err)
           | Inr names \<Rightarrow> None)"
    by (simp add: EnsureIndices_def getCollection_def database_def tableTasks_def Let_def
        perform_def collect_models_append col_def ctx_def batch_def split: sum.splits)
  have one: "model i =
        \<lparr>modelKeys = map (\<lambda>k. (Key k, if Desc k then - 1 else 1)) (Keys i),
         modelOptions =
           \<lparr>optExpireAfterSeconds = None,
            optName = (if Name i = '''' then None else Some (Name i)),
            optSparse = Some (Sparse i),
            optUnique = Some (Unique i)\<rparr>\<rparr>"
    by (simp add: model_def Let_def no_options_def model_keys_append)
  from calls result one show ?thesis
    by simp
qed

theorem EnsureIndices_one_batch_witness:
  "new_calls fresh
     (snd (EnsureIndices store_down
             [\<lparr>Keys = [\<lparr>Key = ''task_id'', Desc = False\<rparr>, \<lparr>Key = ''created_at'', Desc = True\<rparr>],
               Name = ''by_task'', Unique = True, Sparse = False\<rparr>,
              \<lparr>Keys = [\<lparr>Key = ''status'', Desc = False\<rparr>],
               Name = '''', Unique = False, Sparse = True\<rparr>] fresh))
   = [Indexes_CreateMany (Collection (Database (Client 1) ''cogman'') ''tasks'')
        (WithCancel Background)
        [\<lparr>modelKeys = [(''task_id'', 1), (''created_at'', - 1)],
          modelOptions = \<lparr>optExpireAfterSeconds = None, optName = Some ''by_task'',
                          optSparse = Some False, optUnique = Some True\<rparr>\<rparr>,
         \<lparr>modelKeys = [(''status'', 1)],
          modelOptions = \<lparr>optExpireAfterSeconds = None, optName = None,
                          optSparse = Some True, optUnique = Some False\<rparr>\<rparr>],
      Ctx_Cancel (WithCancel Background)]
   \<and> fst (EnsureIndices store_down
             [\<lparr>Keys = [\<lparr>Key = ''task_id'', Desc = False\<rparr>, \<lparr>Key = ''created_at'', Desc = True\<rparr>],
               Name = ''by_task'', Unique = True, Sparse = False\<rparr>,
              \<lparr>Keys = [\<lparr>Key = ''status'', Desc = False\<rparr>],
               Name = '''', Unique = False, Sparse = True\<rparr>] fresh)
     = Some (Mongo ErrClientDisconnected)"
proof -
  have down: "ret_CreateMany store_down h = Inl ErrClientDisconnected" for h
    by (simp add: store_down_def)
  have fresh: "mcl (this fresh) = Client 1"
    by (simp add: fresh_def)
  note batch = EnsureIndices_one_batch [of fresh store_down]
  from batch
    [of "[\<lparr>Keys = [\<lparr>Key = ''task_id'', Desc = False\<rparr>, \<lparr>Key = ''created_at'', Desc = True\<rparr>],
           Name = ''by_task'', Unique = True, Sparse = False\<rparr>,
          \<lparr>Keys = [\<lparr>Key = ''status'', Desc = False\<rparr>],
           Name = '''', Unique = False, Sparse = True\<rparr>]"
        "\<lparr>Keys = [\<lparr>Key = ''task_id'', Desc = False\<rparr>, \<lparr>Key = ''created_at'', Desc = True\<rparr>],
           Name = ''by_task'', Unique = True, Sparse = False\<rparr>"]
    batch
    [of "[]" "\<lparr>Keys = [\<lparr>Key = ''status'', Desc = False\<rparr>],
           Name = '''', Unique = False, Sparse = True\<rparr>"]
  show ?thesis
    by (simp add: down fresh)
qed

section \<open>Listing\<close>

text \<open>
  C8. \<^verbatim>\<open>List(query, skip, limit)\<close> issues one \<^verbatim>\<open>Find\<close> on the fixed collection with
  the query as given and with options whose skip and limit are the arguments converted to
  64 bits; on a platform whose \<^verbatim>\<open>int\<close> has at most 64 bits the conversion keeps the
  values. A limit of zero is passed as zero, so the store's convention for it applies.
  The result is the cursor the store returns for that call, or the error of the call or
  of the cursor.
\<close>

theorem List_passes_skip_and_limit:
  fixes drv :: driver and q :: bson and skip limit :: "'w::len word" and s :: state
  assumes width: "LENGTH('w) \<le> 64"
  defines "col \<equiv> Collection (Database (mcl (this s)) ''cogman'') ''tasks''"
  defines "ctx \<equiv> WithCancel Background"
  defines "opt \<equiv> \<lparr>findSkip = Some (scast skip), findLimit = Some (scast limit)\<rparr>"
  shows "new_calls s (snd (List drv q skip limit s)) = [Coll_Find col ctx q opt, Ctx_Cancel ctx]
    \<and> sint (scast skip :: 64 word) = sint skip
    \<and> sint (scast limit :: 64 word) = sint limit
    \<and> (limit = 0 \<longrightarrow> findLimit opt = Some 0)
    \<and> fst (List drv q skip limit s)
        = (case ret_Find drv (history s @ [Coll_Find col ctx q opt]) of
             Inl err \<Rightarrow> Inl (Mongo err)
           | Inr cursor \<Rightarrow>
               (case cursor_err cursor of
                  Some err \<Rightarrow> Inl (Mongo err)
                | None \<Rightarrow> Inr cursor))"
proof -
  have up: "is_up (scast :: 'w word \<Rightarrow> 64 word)"
    using width by (simp add: is_up)
  have calls: "new_calls s (snd (List drv q skip limit s))
      = [Coll_Find col ctx q opt, Ctx_Cancel ctx]"
    by (simp add: List_def getCollection_def database_def tableTasks_def Let_def
        perform_def new_calls_def no_find_options_def col_def ctx_def opt_def
        split: sum.splits option.splits)
  have result: "fst (List drv q skip limit s)
        = (case ret_Find drv (history s @ [Coll_Find col ctx q opt]) of
             Inl err \<Rightarrow> Inl (Mongo err)
           | Inr cursor \<Rightarrow>
               (case cursor_err cursor of
                  Some err \<Rightarrow> Inl (Mongo err)
                | None \<Rightarrow> Inr cursor))"
    by (simp add: List_def getCollection_def database_def tableTasks_def Let_def
        perform_def no_find_options_def col_def ctx_def opt_def
        split: sum.splits option.splits)
  have zero: "limit = 0 \<longrightarrow> findLimit opt = Some 0"
    by (simp add: opt_def)
  from calls result zero sint_up_scast [OF up] show ?thesis
    by simp
qed

theorem List_passes_skip_and_limit_witness:
  "LENGTH(32) \<le> (64::nat)
   \<and> new_calls fresh (snd (List store_ok (BDoc []) (2 :: 32 word) 0 fresh))
       = [Coll_Find (Collection (Database (Client 1) ''cogman'') ''tasks'')
            (WithCancel Background) (BDoc []) \<lparr>findSkip = Some 2, findLimit = Some 0\<rparr>,
          Ctx_Cancel (WithCancel Background)]
   \<and> fst (List store_ok (BDoc []) (2 :: 32 word) 0 fresh) = Inr (Cursor None [])
   \<and> new_calls fresh (snd (List store_ok (BDoc []) (- 1 :: 32 word) 3 fresh))
       = [Coll_Find (Collection (Database (Client 1) ''cogman'') ''tasks'')
            (WithCancel Background) (BDoc []) \<lparr>findSkip = Some (- 1), findLimit = Some 3\<rparr>,
          Ctx_Cancel (WithCancel Background)]"
proof -
  have width: "LENGTH(32) \<le> (64::nat)"
    by simp
  have ok: "ret_Find store_ok h = Inr (Cursor None [])" for h
    by (simp add: store_ok_def)
  have fresh: "mcl (this fresh) = Client 1"
    by (simp add: fresh_def)
  from width
    List_passes_skip_and_limit [OF width, of fresh store_ok "BDoc []" 2 0]
    List_passes_skip_and_limit [OF width, of fresh store_ok "BDoc []" "- 1" 3]
  show ?thesis
    by (simp add: ok fresh)
qed

section \<open>The collection binding and the frame of the operations\<close>

text \<open>
  C9. The collection lookup returns the fixed collection of the fixed database with a nil
  error, whatever the client. So none of the nine operations that guard it takes the
  error branch: each goes on to its store call on that collection, which is the first
  call it adds to the history.
\<close>

theorem getCollection_never_fails:
  fixes drv :: driver and s :: state and skip limit :: "'w::len word"
  defines "col \<equiv> Collection (Database (mcl (this s)) ''cogman'') ''tasks''"
  defines "ctx \<equiv> WithCancel Background"
  shows "getCollection (this s) = (col, None)
    \<and> hd (new_calls s (snd (SetTTL drv s))) = Indexes_DropOne col ctx ''TTL''
    \<and> hd (new_calls s (snd (EnsureIndices drv indices s)))
        = Indexes_CreateMany col ctx (map model indices)
    \<and> hd (new_calls s (snd (DropIndices drv s))) = Indexes_DropAll col ctx
    \<and> hd (new_calls s (snd (Get drv q s))) = Coll_FindOne col ctx q
    \<and> hd (new_calls s (snd (Create drv t s))) = Coll_InsertOne col ctx t
    \<and> hd (new_calls s (snd (Update drv q v s))) = Coll_ReplaceOne col ctx q v
    \<and> hd (new_calls s (snd (UpdatePartial drv q v s))) = Coll_UpdateOne col ctx q v
    \<and> hd (new_calls s (snd (List drv q skip limit s)))
        = Coll_Find col ctx q \<lparr>findSkip = Some (scast skip), findLimit = Some (scast limit)\<rparr>
    \<and> hd (new_calls s (snd (Aggregate drv p s))) = Coll_Aggregate col ctx p"
proof -
  have bound: "getCollection (this s) = (col, None)"
    by (simp add: getCollection_def database_def tableTasks_def col_def)
  have "hd (new_calls s (snd (SetTTL drv s))) = Indexes_DropOne col ctx ''TTL''"
    by (simp add: SetTTL_def bound Let_def perform_def new_calls_def ctx_def)
  moreover have "hd (new_calls s (snd (EnsureIndices drv indices s)))
        = Indexes_CreateMany col ctx (map model indices)"
    by (simp add: EnsureIndices_def bound Let_def perform_def new_calls_def ctx_def
        collect_models_append split: sum.splits)
  moreover have "hd (new_calls s (snd (DropIndices drv s))) = Indexes_DropAll col ctx"
    by (simp add: DropIndices_def bound Let_def perform_def new_calls_def ctx_def)
  moreover have "hd (new_calls s (snd (Get drv q s))) = Coll_FindOne col ctx q"
    by (simp add: Get_def bound Let_def perform_def new_calls_def ctx_def split: option.splits)
  moreover have "hd (new_calls s (snd (Create drv t s))) = Coll_InsertOne col ctx t"
    by (simp add: Create_def bound Let_def perform_def new_calls_def ctx_def)
  moreover have "hd (new_calls s (snd (Update drv q v s))) = Coll_ReplaceOne col ctx q v"
    by (simp add: Update_def bound Let_def perform_def new_calls_def ctx_def split: sum.splits)
  moreover have "hd (new_calls s (snd (UpdatePartial drv q v s))) = Coll_UpdateOne col ctx q v"
    by (simp add: UpdatePartial_def bound Let_def perform_def new_calls_def ctx_def
        split: sum.splits)
  moreover have "hd (new_calls s (snd (List drv q skip limit s)))
        = Coll_Find col ctx q \<lparr>findSkip = Some (scast skip), findLimit = Some (scast limit)\<rparr>"
    by (simp add: List_def bound Let_def perform_def new_calls_def ctx_def no_find_options_def
        split: sum.splits option.splits)
  moreover have "hd (new_calls s (snd (Aggregate drv p s))) = Coll_Aggregate col ctx p"
    by (simp add: Aggregate_def bound Let_def perform_def new_calls_def ctx_def
        split: sum.splits option.splits)
  ultimately show ?thesis
    using bound by simp
qed

theorem getCollection_never_fails_witness:
  "snd (getCollection (this fresh)) = None
   \<and> hd (new_calls fresh (snd (Get store_down (BDoc []) fresh)))
       = Coll_FindOne (Collection (Database (Client 1) ''cogman'') ''tasks'')
           (WithCancel Background) (BDoc [])
   \<and> hd (new_calls fresh (snd (DropIndices store_down fresh)))
       = Indexes_DropAll (Collection (Database (Client 1) ''cogman'') ''tasks'')
           (WithCancel Background)"
proof -
  have fresh: "mcl (this fresh) = Client 1"
    by (simp add: fresh_def)
  from getCollection_never_fails
    [where s = fresh and drv = store_down and indices = "[]" and q = "BDoc []"
       and t = "BDoc []" and v = "BDoc []" and p = "BArray []"
       and skip = "0 :: 64 word" and limit = "0 :: 64 word"]
  show ?thesis
    by (simp add: fresh)
qed

text \<open>
  C10. Apart from \<^verbatim>\<open>StartTransaction\<close> and \<^verbatim>\<open>CommitTransaction\<close>, every operation
  leaves the client struct as it found it: the session map, the URL, the expiry and the
  connection handle. A client that \<^verbatim>\<open>NewMongoClient\<close> returns has an empty session map.
\<close>

theorem only_transactions_change_the_client:
  fixes drv :: driver and s :: state and skip limit :: "'w::len word"
  shows "this (snd (Connect drv s)) = this s
    \<and> this (snd (Ping drv s)) = this s
    \<and> this (snd (Close drv s)) = this s
    \<and> this (snd (SetTTL drv s)) = this s
    \<and> this (snd (EnsureIndices drv indices s)) = this s
    \<and> this (snd (DropIndices drv s)) = this s
    \<and> this (snd (Get drv q s)) = this s
    \<and> this (snd (Create drv t s)) = this s
    \<and> this (snd (Update drv q v s)) = this s
    \<and> this (snd (UpdatePartial drv q v s)) = this s
    \<and> this (snd (List drv q skip limit s)) = this s
    \<and> this (snd (Aggregate drv p s)) = this s
    \<and> (\<forall>m. fst (NewMongoClient drv url ttl h) = Inr m \<longrightarrow> sess m = Map.empty)"
proof -
  have "this (snd (Connect drv s)) = this s"
    by (simp add: Connect_def Let_def perform_def split: option.splits)
  moreover have "this (snd (Ping drv s)) = this s"
    by (simp add: Ping_def Let_def perform_def)
  moreover have "this (snd (Close drv s)) = this s"
    by (simp add: Close_def Let_def perform_def)
  moreover have "this (snd (SetTTL drv s)) = this s"
    by (simp add: SetTTL_def getCollection_def Let_def perform_def)
  moreover have "this (snd (EnsureIndices drv indices s)) = this s"
    by (simp add: EnsureIndices_def getCollection_def Let_def perform_def split: sum.splits)
  moreover have "this (snd (DropIndices drv s)) = this s"
    by (simp add: DropIndices_def getCollection_def Let_def perform_def)
  moreover have "this (snd (Get drv q s)) = this s"
    by (simp add: Get_def getCollection_def Let_def perform_def split: option.splits)
  moreover have "this (snd (Create drv t s)) = this s"
    by (simp add: Create_def getCollection_def Let_def perform_def)
  moreover have "this (snd (Update drv q v s)) = this s"
    by (simp add: Update_def getCollection_def Let_def perform_def split: sum.splits)
  moreover have "this (snd (UpdatePartial drv q v s)) = this s"
    by (simp add: UpdatePartial_def getCollection_def Let_def perform_def split: sum.splits)
  moreover have "this (snd (List drv q skip limit s)) = this s"
    by (simp add: List_def getCollection_def Let_def perform_def
        split: sum.splits option.splits)
  moreover have "this (snd (Aggregate drv p s)) = this s"
    by (simp add: Aggregate_def getCollection_def Let_def perform_def
        split: sum.splits option.splits)
  moreover have "\<forall>m. fst (NewMongoClient drv url ttl h) = Inr m
      \<longrightarrow> sess m = Map.empty"
    by (auto simp add: NewMongoClient_def Let_def split: sum.splits)
  ultimately show ?thesis
    by simp
qed

theorem only_transactions_change_the_client_witness:
  "fst (NewMongoClient store_ok ''mongodb://localhost:27017'' 3600000000000 [])
     = Inr (this fresh)
   \<and> sess (this fresh) = Map.empty
   \<and> this (snd (Update store_ok (BDoc []) (BDoc []) in_transaction)) = this in_transaction
   \<and> sess (this (snd (Close store_ok in_transaction))) ''t1'' = Some (SessionImpl 7)
   \<and> sess (this (snd (StartTransaction store_ok ''t1'' fresh))) ''t1'' = Some (SessionImpl 2)
   \<and> sess (this (snd (CommitTransaction store_ok ''t1'' Background in_transaction))) ''t1''
       = None"
proof -
  have new: "fst (NewMongoClient store_ok ''mongodb://localhost:27017''
                    3600000000000 []) = Inr (this fresh)"
    by (simp add: NewMongoClient_def store_ok_def fresh_def Seconds_one_hour)
  have active: "sess (this in_transaction) ''t1'' = Some (SessionImpl 7)"
    by (simp add: in_transaction_def)
  have start: "sess (this (snd (StartTransaction store_ok ''t1'' fresh))) ''t1''
      = Some (SessionImpl 2)"
    by (simp add: StartTransaction_def store_ok_def fresh_def Let_def perform_def
        index_sess_def)
  have commit: "sess (this (snd (CommitTransaction store_ok ''t1'' Background in_transaction)))
      ''t1'' = None"
    by (simp add: CommitTransaction_def store_ok_def in_transaction_def fresh_def Let_def
        perform_def index_sess_def)
  note frame = only_transactions_change_the_client
  from frame
    [where drv = store_ok and s = in_transaction and indices = "[]" and q = "BDoc []"
       and t = "BDoc []" and v = "BDoc []" and p = "BArray []"
       and skip = "0 :: 64 word" and limit = "0 :: 64 word"
       and url = "''mongodb://localhost:27017''"
       and ttl = 3600000000000 and h = "[]"]
    new active start commit
  show ?thesis
    by simp
qed

end
